theory Spec2Isabelle
  imports Complex_Main
begin

section \<open>Tensors and the channel-layout conversions\<close>

text \<open>
  The image utilities work on \<^verbatim>\<open>torch.Tensor\<close> values. A tensor is modelled by what
  the source reads from it: its \<^verbatim>\<open>shape\<close> and the element stored at each index
  tuple. \<^verbatim>\<open>image.dim()\<close> is the length of the shape.
\<close>

record 'a tensor =
  shape :: "nat list"
  elem :: "nat list \<Rightarrow> 'a"

definition tensor_dim :: "'a tensor \<Rightarrow> nat" where
  "tensor_dim t = length (shape t)"

text \<open>An index tuple addresses an element when it has one in-range entry per dimension.\<close>

definition valid_index :: "nat list \<Rightarrow> nat list \<Rightarrow> bool" where
  "valid_index sh idx = list_all2 (\<lambda>i n. i < n) idx sh"

text \<open>
  \<^verbatim>\<open>t.permute(d0, ..., dn)\<close>: dimension \<open>k\<close> of the result is dimension \<open>dk\<close> of
  \<open>t\<close>, so the result at \<open>js\<close> is \<open>t\<close> at the index \<open>is\<close> with \<open>is ! dk = js ! k\<close>.
  The source calls it only under a guard on \<^verbatim>\<open>image.dim()\<close>, with a permutation of
  exactly that many dimensions, where torch does not raise.
\<close>

definition index_of :: "nat list \<Rightarrow> nat \<Rightarrow> nat" where
  "index_of ds d = length (takeWhile (\<lambda>x. x \<noteq> d) ds)"

definition permute :: "nat list \<Rightarrow> 'a tensor \<Rightarrow> 'a tensor" where
  "permute ds t =
     \<lparr>shape = map (\<lambda>d. shape t ! d) ds,
      elem = (\<lambda>js. elem t (map (\<lambda>i. js ! index_of ds i) [0..<length ds]))\<rparr>"

text \<open>
  \<^verbatim>\<open>
  if image.dim() == 4:
      image = image if image.shape[1] == 3 else image.permute(0, 3, 1, 2)
  elif image.dim() == 3:
      image = image if image.shape[0] == 3 else image.permute(2, 0, 1)
  return image
  \<close>
\<close>

definition convert_to_channels_first :: "'a tensor \<Rightarrow> 'a tensor" where
  "convert_to_channels_first img =
     (if tensor_dim img = 4 then
        (if shape img ! 1 = 3 then img else permute [0, 3, 1, 2] img)
      else if tensor_dim img = 3 then
        (if shape img ! 0 = 3 then img else permute [2, 0, 1] img)
      else img)"

text \<open>
  \<^verbatim>\<open>
  if image.dim() == 4:
      image = image if image.shape[3] == 3 else image.permute(0, 2, 3, 1)
  elif image.dim() == 3:
      image = image if image.shape[2] == 3 else image.permute(1, 2, 0)
  return image
  \<close>
\<close>

definition convert_to_channels_last :: "'a tensor \<Rightarrow> 'a tensor" where
  "convert_to_channels_last img =
     (if tensor_dim img = 4 then
        (if shape img ! 3 = 3 then img else permute [0, 2, 3, 1] img)
      else if tensor_dim img = 3 then
        (if shape img ! 2 = 3 then img else permute [1, 2, 0] img)
      else img)"

text \<open>Concrete tensors: the element at an index is the decimal number its entries spell.\<close>

definition digits_elem :: "nat list \<Rightarrow> int" where
  "digits_elem idx = int (foldl (\<lambda>a i. 10 * a + i) 0 idx)"

definition chw_345 :: "int tensor" where
  "chw_345 = \<lparr>shape = [3, 4, 5], elem = digits_elem\<rparr>"

definition hwc_453 :: "int tensor" where
  "hwc_453 = \<lparr>shape = [4, 5, 3], elem = digits_elem\<rparr>"

definition matrix_23 :: "int tensor" where
  "matrix_23 = \<lparr>shape = [2, 3], elem = digits_elem\<rparr>"

section \<open>Errors\<close>

text \<open>
  The exceptions that the modelled code can raise. \<open>Unmodelled\<close> is not a Python
  exception: it marks the call of a transform whose effect on an image is outside this
  development (see \<open>call_transform\<close>).
\<close>

datatype error =
    ValueError | RuntimeError | AttributeError | FileNotFoundError | JSONDecodeError
  | Unmodelled

section \<open>Transform pipelines\<close>

text \<open>
  A configuration value that the source hands to a library call without looking at it
  can be a Python integer or a Python string.
\<close>

datatype py_value = PyInt int | PyStr string

text \<open>
  Modelled from the spec: \<^verbatim>\<open>InterpolationMode\<close> is an enumeration of the torchvision
  library, which is not under src/. The spec calls the interpolation mode enumerated.
  The members of torchvision's enumeration have the string values \<^verbatim>\<open>nearest\<close>,
  \<^verbatim>\<open>nearest-exact\<close>, \<^verbatim>\<open>bilinear\<close>, \<^verbatim>\<open>bicubic\<close>, \<^verbatim>\<open>box\<close>, \<^verbatim>\<open>hamming\<close> and
  \<^verbatim>\<open>lanczos\<close>. The call \<^verbatim>\<open>f.InterpolationMode(value)\<close> looks a member up by its
  value, as every Python \<^verbatim>\<open>Enum\<close> does, and raises ValueError when no member has the
  value; no member has an integer value.
\<close>

datatype interpolation_mode =
  NEAREST | NEAREST_EXACT | BILINEAR | BICUBIC | BOX | HAMMING | LANCZOS


text \<open>
  The objects of \<^verbatim>\<open>torchvision.transforms\<close> that the source constructs, each recorded
  with the arguments the source passes, in the source's order. The constructors of the
  transforms accept the integers, booleans and interpolation modes that they are given
  here.
\<close>

datatype transform =
    RandomResizedCrop int interpolation_mode
  | RandomHorizontalFlip bool
  | TrivialAugmentWide int interpolation_mode
  | AugMix interpolation_mode
  | RandAugment int interpolation_mode
  | ToTensor
  | Normalize "real list" "real list"
  | Resize int interpolation_mode
  | CenterCrop int
  | Lambda "real tensor \<Rightarrow> real tensor"

datatype compose = Compose "transform list"

text \<open>
  \<^verbatim>\<open>IMAGENET_DEFAULT_MEAN\<close> and \<^verbatim>\<open>IMAGENET_DEFAULT_STD\<close> are imported from
  \<^verbatim>\<open>timm.data.constants\<close>; their values are the ones that the docstring of
  \<^verbatim>\<open>get_data_augmentation\<close> prints for \<^verbatim>\<open>Normalize\<close>.
\<close>

definition IMAGENET_DEFAULT_MEAN :: "real list" where
  "IMAGENET_DEFAULT_MEAN = [0.485, 0.456, 0.406]"

definition IMAGENET_DEFAULT_STD :: "real list" where
  "IMAGENET_DEFAULT_STD = [0.229, 0.224, 0.225]"

subsection \<open>Calling a transform on a tensor\<close>

text \<open>\<^verbatim>\<open>image * (1 / 255)\<close>: every element is multiplied by the scalar.\<close>

definition tensor_mul :: "real tensor \<Rightarrow> real \<Rightarrow> real tensor" where
  "tensor_mul t k = \<lparr>shape = shape t, elem = (\<lambda>idx. elem t idx * k)\<rparr>"

text \<open>
  Modelled from the spec: \<^verbatim>\<open>transforms.Normalize\<close> is a class of the torchvision
  library, which is not under src/. The spec calls it per-channel normalization with
  mean/std constants; torchvision documents
  \<^verbatim>\<open>output[channel] = (input[channel] - mean[channel]) / std[channel]\<close> on a tensor
  of shape \<^verbatim>\<open>(..., C, H, W)\<close>. It raises ValueError on a tensor of fewer than three
  dimensions or when a std entry is zero, and the in-place broadcast of the
  \<^verbatim>\<open>(C, 1, 1)\<close> views of mean and std raises RuntimeError unless their length is 1 or
  the size of the channel dimension. Elements are reals here, so the TypeError on a
  non-float tensor has no counterpart.
\<close>

definition channel_dim :: "'a tensor \<Rightarrow> nat" where
  "channel_dim t = tensor_dim t - 3"

definition at_channel :: "real list \<Rightarrow> real tensor \<Rightarrow> nat list \<Rightarrow> real" where
  "at_channel v t idx = (if length v = 1 then v ! 0 else v ! (idx ! channel_dim t))"

definition broadcasts :: "real list \<Rightarrow> real tensor \<Rightarrow> bool" where
  "broadcasts v t \<longleftrightarrow> length v = 1 \<or> length v = shape t ! channel_dim t"

definition normalize :: "real tensor \<Rightarrow> real list \<Rightarrow> real list \<Rightarrow> error + real tensor" where
  "normalize t mean std =
     (if tensor_dim t < 3 then Inl ValueError
      else if 0 \<in> set std then Inl ValueError
      else if \<not> broadcasts mean t \<or> \<not> broadcasts std t then Inl RuntimeError
      else Inr \<lparr>shape = shape t,
                elem = (\<lambda>idx. (elem t idx - at_channel mean t idx) / at_channel std t idx)\<rparr>)"

text \<open>
  \<^verbatim>\<open>Lambda(g)\<close> calls \<open>g\<close>; \<^verbatim>\<open>Normalize\<close> is as above. The other transforms work
  on PIL images or draw random numbers when called; only the structure of the pipelines
  that hold them is studied here, so calling one is left outside the model.
\<close>

fun call_transform :: "transform \<Rightarrow> real tensor \<Rightarrow> error + real tensor" where
  "call_transform (Lambda g) t = Inr (g t)"
| "call_transform (Normalize mean std) t = normalize t mean std"
| "call_transform _ t = Inl Unmodelled"

text \<open>\<^verbatim>\<open>Compose\<close> calls its transforms in order; an exception ends the call.\<close>

fun call_all :: "transform list \<Rightarrow> real tensor \<Rightarrow> error + real tensor" where
  "call_all [] t = Inr t"
| "call_all (g # gs) t =
     (case call_transform g t of Inl e \<Rightarrow> Inl e | Inr t' \<Rightarrow> call_all gs t')"

fun call_Compose :: "compose \<Rightarrow> real tensor \<Rightarrow> error + real tensor" where
  "call_Compose (Compose gs) t = call_all gs t"

subsection \<open>The explanation pipeline and its inverse\<close>

text \<open>
  \<^verbatim>\<open>
  transform = transforms.Compose([transforms.Lambda(convert_to_channels_first),
                                  transforms.Lambda(lambda image: image * (1 / 255)),
                                  transforms.Normalize(mean=IMAGENET_DEFAULT_MEAN, std=IMAGENET_DEFAULT_STD),
                                  transforms.Lambda(convert_to_channels_last)])
  inv_transform = transforms.Compose([
      transforms.Lambda(convert_to_channels_first),
      transforms.Normalize(
          mean=(-1 * np.array(IMAGENET_DEFAULT_MEAN) / np.array(IMAGENET_DEFAULT_STD)).tolist(),
          std=(1 / np.array(IMAGENET_DEFAULT_STD)).tolist()),
      transforms.Lambda(convert_to_channels_last)])
  return transform, inv_transform
  \<close>
  The numpy expressions work element by element on the two three-element arrays.
\<close>

definition get_explain_data_aug :: "compose \<times> compose" where
  "get_explain_data_aug =
     (let transform = Compose [Lambda convert_to_channels_first,
                               Lambda (\<lambda>img. tensor_mul img (1 / 255)),
                               Normalize IMAGENET_DEFAULT_MEAN IMAGENET_DEFAULT_STD,
                               Lambda convert_to_channels_last];
          inv_transform = Compose [Lambda convert_to_channels_first,
                                   Normalize
                                     (map2 (\<lambda>m s. -1 * m / s)
                                        IMAGENET_DEFAULT_MEAN IMAGENET_DEFAULT_STD)
                                     (map (\<lambda>s. 1 / s) IMAGENET_DEFAULT_STD),
                                   Lambda convert_to_channels_last]
      in (transform, inv_transform))"

text \<open>
  The composition that the explanation code relies on: the forward transform, then the
  inverse transform on its result.
\<close>

definition explain_roundtrip :: "real tensor \<Rightarrow> error + real tensor" where
  "explain_roundtrip x =
     (case call_Compose (fst get_explain_data_aug) x of
        Inl e \<Rightarrow> Inl e
      | Inr y \<Rightarrow> call_Compose (snd get_explain_data_aug) y)"

text \<open>The element of a result at an index, when there is a result.\<close>

definition pixel_of :: "error + real tensor \<Rightarrow> nat list \<Rightarrow> real option" where
  "pixel_of r idx = (case r of Inl e \<Rightarrow> None | Inr t \<Rightarrow> Some (elem t idx))"

text \<open>A one-pixel channels-last image whose three channel values are all 255.\<close>

definition white_pixel :: "real tensor" where
  "white_pixel = \<lparr>shape = [1, 1, 3], elem = (\<lambda>idx. 255)\<rparr>"

section \<open>The configuration object\<close>

text \<open>
  \<^verbatim>\<open>args\<close> is a namespace of scalar and string attributes; the fields are the ones
  that \<^verbatim>\<open>get_data_augmentation\<close>, \<^verbatim>\<open>get_optimizer\<close> and \<^verbatim>\<open>get_lr_scheduler\<close>
  read, with the types their docstrings give. The docstring calls \<^verbatim>\<open>interpolation\<close>
  an integer, and the only use of the field is the enumeration lookup, which accepts
  strings only; the field holds either.
\<close>

record args =
  crop_size :: int
  interpolation :: py_value
  hflip :: bool
  aug_type :: string
  mag_bins :: int
  val_resize :: int
  opt_name :: string
  lr :: real
  wd :: real
  sched_name :: string
  warmup_decay :: real
  warmup_epochs :: int
  step_size :: int
  gamma :: real
  epochs :: int
  eta_min :: real

section \<open>The augmentation pipelines\<close>


text \<open>
  A configuration whose augmentation type is none of the three known names and whose
  other values the library accepts.
\<close>

definition plain_args :: args where
  "plain_args =
     \<lparr>crop_size = 224, interpolation = PyStr ''bilinear'', hflip = True, aug_type = ''none'', mag_bins = 3,
      val_resize = 256, opt_name = ''sgd'', lr = 0.01, wd = 0.0001, sched_name = ''step'',
      warmup_decay = 0.01, warmup_epochs = 5, step_size = 10, gamma = 0.1, epochs = 20,
      eta_min = 0\<rparr>"

section \<open>Optimizers\<close>

text \<open>
  An optimizer object is recorded with the parameter list and the hyperparameters that
  its constructor receives.
\<close>

datatype 'p optimizer =
    SGD (opt_params: "'p list") (opt_lr: real) (opt_weight_decay: real) (opt_momentum: real)
  | AdamW (opt_params: "'p list") (opt_lr: real) (opt_weight_decay: real)

text \<open>
  \<^verbatim>\<open>optim.SGD\<close> and \<^verbatim>\<open>optim.AdamW\<close> belong to PyTorch, not to src/. Their
  constructors check the arguments that the source passes: a negative learning rate,
  momentum or weight decay raises ValueError, and so does an empty parameter list
  (\<^verbatim>\<open>optimizer got an empty parameter list\<close>). The arguments that the source leaves at
  their defaults pass the checks.
\<close>

definition optim_SGD :: "'p list \<Rightarrow> real \<Rightarrow> real \<Rightarrow> real \<Rightarrow> error + 'p optimizer" where
  "optim_SGD params l weight_decay momentum =
     (if l < 0 \<or> momentum < 0 \<or> weight_decay < 0 \<or> params = [] then Inl ValueError
      else Inr (SGD params l weight_decay momentum))"

definition optim_AdamW :: "'p list \<Rightarrow> real \<Rightarrow> real \<Rightarrow> error + 'p optimizer" where
  "optim_AdamW params l weight_decay =
     (if l < 0 \<or> weight_decay < 0 \<or> params = [] then Inl ValueError
      else Inr (AdamW params l weight_decay))"

text \<open>
  \<^verbatim>\<open>
  if args.opt_name == "sgd":
      return optim.SGD(params, lr=args.lr, weight_decay=args.wd, momentum=0.9)
  elif args.opt_name == "adamw":
      return optim.AdamW(params, lr=args.lr, weight_decay=args.wd)
  return None
  \<close>
\<close>

definition get_optimizer :: "args \<Rightarrow> 'p list \<Rightarrow> error + 'p optimizer option" where
  "get_optimizer a params =
     (if opt_name a = ''sgd'' then
        (case optim_SGD params (lr a) (wd a) 0.9 of
           Inl e \<Rightarrow> Inl e
         | Inr opt \<Rightarrow> Inr (Some opt))
      else if opt_name a = ''adamw'' then
        (case optim_AdamW params (lr a) (wd a) of
           Inl e \<Rightarrow> Inl e
         | Inr opt \<Rightarrow> Inr (Some opt))
      else Inr None)"

section \<open>Learning-rate schedulers\<close>

text \<open>
  A scheduler object is recorded with the optimizer it is attached to and the arguments
  of its constructor: \<open>LinearLR optimizer start_factor total_iters\<close>,
  \<open>StepLR optimizer step_size gamma\<close>, \<open>CosineAnnealingLR optimizer T_max eta_min\<close>,
  \<open>SequentialLR optimizer schedulers milestones\<close>.
  \<^verbatim>\<open>
  warmup_lr = optim.lr_scheduler.LinearLR(optimizer, start_factor=args.warmup_decay, total_iters=args.warmup_epochs)
  if args.sched_name == "step":
      scheduler = optim.lr_scheduler.StepLR(optimizer, step_size=args.step_size, gamma=args.gamma)
  elif args.sched_name == "cosine":
      scheduler = optim.lr_scheduler.CosineAnnealingLR(optimizer, T_max=args.epochs - args.warmup_epochs,
                                                       eta_min=args.eta_min)
  else:
      return None
  lr_scheduler = optim.lr_scheduler.SequentialLR(optimizer, schedulers=[warmup_lr, scheduler],
                                                 milestones=[args.warmup_epochs])
  return lr_scheduler
  \<close>
\<close>

datatype 'p scheduler =
    LinearLR "'p optimizer" real int
  | StepLR "'p optimizer" int real
  | CosineAnnealingLR "'p optimizer" int real
  | SequentialLR "'p optimizer" "'p scheduler list" "int list"

text \<open>
  The constructor of \<^verbatim>\<open>LinearLR\<close> (PyTorch, not under src/) raises ValueError unless
  \<open>0 < start_factor \<le> 1\<close>. The constructors of the other three schedulers accept the
  arguments that the source passes.
\<close>

definition lr_scheduler_LinearLR ::
    "'p optimizer \<Rightarrow> real \<Rightarrow> int \<Rightarrow> error + 'p scheduler" where
  "lr_scheduler_LinearLR optimizer start_factor total_iters =
     (if start_factor > 1 \<or> start_factor \<le> 0 then Inl ValueError
      else Inr (LinearLR optimizer start_factor total_iters))"

text \<open>
  The statements after the construction of \<^verbatim>\<open>warmup_lr\<close>: the choice of the main
  scheduler and the sequential scheduler around both, or \<open>None\<close>.
\<close>

definition sequence_after ::
    "args \<Rightarrow> 'p optimizer \<Rightarrow> 'p scheduler \<Rightarrow> 'p scheduler option" where
  "sequence_after a optimizer warmup_lr =
     (let scheduler =
            (if sched_name a = ''step'' then Some (StepLR optimizer (step_size a) (gamma a))
             else if sched_name a = ''cosine'' then
               Some (CosineAnnealingLR optimizer (epochs a - warmup_epochs a) (eta_min a))
             else None)
      in case scheduler of
           None \<Rightarrow> None
         | Some sch \<Rightarrow>
             Some (SequentialLR optimizer [warmup_lr, sch] [warmup_epochs a]))"

definition get_lr_scheduler ::
    "args \<Rightarrow> 'p optimizer \<Rightarrow> error + 'p scheduler option" where
  "get_lr_scheduler a optimizer =
     (case lr_scheduler_LinearLR optimizer (warmup_decay a) (warmup_epochs a) of
        Inl e \<Rightarrow> Inl e
      | Inr warmup_lr \<Rightarrow> Inr (sequence_after a optimizer warmup_lr))"

text \<open>
  Modelled from the spec: the scheduler classes belong to \<^verbatim>\<open>torch.optim.lr_scheduler\<close>,
  which is not under src/, so the learning rate that a scheduler applies at an epoch is
  taken from the spec. It is a pure function of the step counter and the configured
  milestones. The warmup phase spans \<open>total_iters\<close> epochs, starts at the
  \<open>start_factor\<close> fraction of the target rate and rises linearly to the full rate. The
  step phase is piecewise constant and decays by \<open>gamma\<close> every \<open>step_size\<close> epochs.
  The cosine phase anneals over \<open>T_max\<close> epochs down to \<open>eta_min\<close>. A sequential
  scheduler chains two phases with the transition at its milestone, where the second
  phase starts counting, and never re-enters the first. The spec describes no other
  arrangement of a sequential scheduler; for those there is no rate.
\<close>

fun lr_at :: "'p scheduler \<Rightarrow> int \<Rightarrow> real option" where
  "lr_at (LinearLR optimizer start_factor total_iters) e =
     Some (opt_lr optimizer *
       (start_factor + (1 - start_factor) * real_of_int (min e total_iters)
          / real_of_int total_iters))"
| "lr_at (StepLR optimizer n g) e = Some (opt_lr optimizer * g ^ nat (e div n))"
| "lr_at (CosineAnnealingLR optimizer t_max eta) e =
     Some (eta + (opt_lr optimizer - eta)
       * (1 + cos (pi * real_of_int e / real_of_int t_max)) / 2)"
| "lr_at (SequentialLR optimizer [warmup, main] [milestone]) e =
     (if e < milestone then lr_at warmup e else lr_at main (e - milestone))"
| "lr_at (SequentialLR optimizer _ _) e = None"

text \<open>
  The rate at an epoch of the schedule that a configuration describes: the scheduler
  that the source assembles around the warmup scheduler with start factor
  \<open>warmup_decay\<close> and \<open>warmup_epochs\<close> iterations. It is the scheduler that
  \<open>get_lr_scheduler\<close> returns whenever it returns one.
\<close>

definition scheduled_lr :: "args \<Rightarrow> 'p optimizer \<Rightarrow> int \<Rightarrow> real option" where
  "scheduled_lr a optimizer e =
     (case sequence_after a optimizer
             (LinearLR optimizer (warmup_decay a) (warmup_epochs a)) of
        None \<Rightarrow> None
      | Some s \<Rightarrow> lr_at s e)"

text \<open>
  An SGD optimizer over one parameter (parameters are numbered), with learning rate
  0.01, as \<open>get_optimizer\<close> builds it for \<open>plain_args\<close>.
\<close>

definition sgd_001 :: "nat optimizer" where
  "sgd_001 = SGD [0] 0.01 0.0001 0.9"

section \<open>JSON files\<close>

text \<open>
  A JSON document as \<^verbatim>\<open>json.load\<close> returns it. A Python dictionary keeps its keys in
  insertion order and holds each key once, so it is a list of items.
\<close>

datatype json =
    JNull
  | JBool bool
  | JInt int
  | JString string
  | JList "json list"
  | JDict "(string \<times> json) list"

text \<open>
  The file system maps a path to the content of the file there: a JSON document, or
  text that \<^verbatim>\<open>json.load\<close> rejects.
\<close>

datatype file_content = Document json | Not_json

type_synonym file_system = "string \<rightharpoonup> file_content"

text \<open>\<^verbatim>\<open>d[k] = v\<close>: an existing key keeps its place and takes the new value.\<close>

fun dict_setitem :: "(string \<times> json) list \<Rightarrow> string \<Rightarrow> json \<Rightarrow> (string \<times> json) list" where
  "dict_setitem [] k v = [(k, v)]"
| "dict_setitem ((k', v') # d) k v =
     (if k' = k then (k, v) # d else (k', v') # dict_setitem d k v)"

text \<open>\<^verbatim>\<open>data.update(new_dict)\<close> stores the items of \<^verbatim>\<open>new_dict\<close> one after another.\<close>

fun dict_update :: "(string \<times> json) list \<Rightarrow> (string \<times> json) list \<Rightarrow> (string \<times> json) list" where
  "dict_update d [] = d"
| "dict_update d ((k, v) # new) = dict_update (dict_setitem d k v) new"

text \<open>
  \<^verbatim>\<open>
  with open(file_path, "r") as file:
      return json.load(file)
  \<close>
\<close>

definition load_json_file :: "file_system \<Rightarrow> string \<Rightarrow> error + json" where
  "load_json_file fs file_path =
     (case fs file_path of
        None \<Rightarrow> Inl FileNotFoundError
      | Some Not_json \<Rightarrow> Inl JSONDecodeError
      | Some (Document data) \<Rightarrow> Inr data)"

text \<open>
  \<^verbatim>\<open>
  try:
      data = load_json_file(file_path)
  except FileNotFoundError:
      data = {}
  data.update(new_dict)
  with open(file_path, "w") as json_file:
      json.dump(data, json_file, indent=4)
  \<close>
  Only a dictionary has \<^verbatim>\<open>update\<close>: on any other document the call raises
  AttributeError before the file is opened for writing. The function returns the file
  system it leaves.
\<close>

definition append_dict_to_json_file ::
    "(string \<times> json) list \<Rightarrow> string \<Rightarrow> file_system \<Rightarrow> error + file_system" where
  "append_dict_to_json_file new_dict file_path fs =
     (case (case load_json_file fs file_path of
              Inl FileNotFoundError \<Rightarrow> Inr (JDict [])
            | Inl e \<Rightarrow> Inl e
            | Inr data \<Rightarrow> Inr data) of
        Inl e \<Rightarrow> Inl e
      | Inr (JDict data) \<Rightarrow>
          Inr (fs(file_path \<mapsto> Document (JDict (dict_update data new_dict))))
      | Inr _ \<Rightarrow> Inl AttributeError)"

section \<open>Class weights\<close>

text \<open>
  The data loader is read through \<^verbatim>\<open>data_loader.dataset.targets\<close> (the label of each
  sample, a class index) and \<^verbatim>\<open>data_loader.dataset.classes\<close>.
\<close>

record dataset =
  targets :: "nat list"
  classes :: "string list"

record data_loader =
  dataset :: dataset

text \<open>
  \<^verbatim>\<open>np.bincount(x)\<close> counts the occurrences of each value from 0 to the largest one in
  \<open>x\<close>; on an empty input it is empty.
\<close>

definition bincount :: "nat list \<Rightarrow> nat list" where
  "bincount xs = (if xs = [] then [] else map (count_list xs) [0..<Suc (fold max xs 0)])"

text \<open>
  numpy's true division of integers gives a float and does not raise on a zero divisor:
  the quotient is then infinite (or not a number for \<open>0 / 0\<close>). Finite quotients are
  reals here; the rounding of floats, and of the final \<^verbatim>\<open>torch.Tensor\<close> conversion, is
  not modelled.
\<close>

datatype np_float = Finite real | PosInf | NaN

definition true_divide :: "nat \<Rightarrow> nat \<Rightarrow> np_float" where
  "true_divide n d =
     (if d = 0 then (if n = 0 then NaN else PosInf) else Finite (real n / real d))"

text \<open>
  \<^verbatim>\<open>
  targets = data_loader.dataset.targets
  class_counts = np.bincount(targets)
  class_weights = len(targets) / (len(data_loader.dataset.classes) * class_counts)
  return torch.Tensor(class_weights)
  \<close>
\<close>

definition get_class_weights :: "data_loader \<Rightarrow> np_float list" where
  "get_class_weights dl =
     (let tgts = targets (dataset dl);
          class_counts = bincount tgts;
          class_weights =
            map (\<lambda>c. true_divide (length tgts) (length (classes (dataset dl)) * c))
              class_counts
      in class_weights)"

definition loader_80_20 :: data_loader where
  "loader_80_20 =
     \<lparr>dataset = \<lparr>targets = replicate 80 0 @ replicate 20 1,
                  classes = [''cat'', ''dog'']\<rparr>\<rparr>"

section \<open>Seeding\<close>

text \<open>
  The seeds last given to NumPy and to Python's \<^verbatim>\<open>random\<close> module, and the initial
  seed of PyTorch, which the function reads.
\<close>

record seeds =
  numpy_seed :: int
  random_seed :: int
  torch_initial_seed :: int

text \<open>
  \<^verbatim>\<open>
  if worker_id is not None:
      worker_seed = worker_id
      np.random.seed(worker_seed)
      random.seed(worker_seed)
      return worker_seed
  else:
      np.random.seed(torch.initial_seed() % 2 ** 32)
      random.seed(torch.initial_seed() % 2 ** 32)
      return None
  \<close>
  The function returns its value and the seeds it leaves.
\<close>

definition set_seed_for_worker :: "int option \<Rightarrow> seeds \<Rightarrow> int option \<times> seeds" where
  "set_seed_for_worker worker_id st =
     (case worker_id of
        Some w \<Rightarrow>
          (let worker_seed = w
           in (Some worker_seed, st\<lparr>numpy_seed := worker_seed, random_seed := worker_seed\<rparr>))
      | None \<Rightarrow>
          (None, st\<lparr>numpy_seed := torch_initial_seed st mod 2 ^ 32,
                    random_seed := torch_initial_seed st mod 2 ^ 32\<rparr>))"

section \<open>Properties of the layout conversions\<close>

lemma length3E:
  assumes "length xs = 3"
  obtains a b c where "xs = [a, b, c]"
  using assms by (auto simp: numeral_3_eq_3 length_Suc_conv)

lemma length4E:
  assumes "length xs = 4"
  obtains a b c d where "xs = [a, b, c, d]"
proof -
  from assms have "length xs = Suc (Suc (Suc (Suc 0)))" by simp
  then show thesis using that by (auto simp: length_Suc_conv)
qed

lemma valid_index_length: "valid_index sh idx \<Longrightarrow> length idx = length sh"
  by (simp add: valid_index_def list_all2_lengthD)

lemma index_of_simps [simp]:
  "index_of [] d = 0"
  "index_of (x # xs) d = (if x = d then 0 else Suc (index_of xs d))"
  by (simp_all add: index_of_def)

lemma upt3: "[0..<3] = [0, 1, 2]"
  by (simp add: upt_rec)

lemma upt4: "[0..<4] = [0, 1, 2, 3]"
  by (simp add: upt_rec)

text \<open>
  C1, as amended. The round trip
  \<open>convert_to_channels_last (convert_to_channels_first t)\<close> gives back the shape and
  the elements of a 3-D or 4-D tensor \<open>t\<close> when either both conversions leave \<open>t\<close>
  alone (the size at the channels-first position and the last size are both 3), or
  \<open>convert_to_channels_first\<close> permutes \<open>t\<close> (the size at the channels-first position
  is not 3) and \<open>convert_to_channels_last\<close> permutes it back (the size that lands last,
  the second to last of \<open>t\<close>, is not 3).
\<close>

theorem channels_roundtrip:
  assumes rank: "tensor_dim t = 3 \<or> tensor_dim t = 4"
    and layout:
      "(shape t ! (tensor_dim t - 3) = 3 \<and> shape t ! (tensor_dim t - 1) = 3) \<or>
       (shape t ! (tensor_dim t - 3) \<noteq> 3 \<and> shape t ! (tensor_dim t - 2) \<noteq> 3)"
  shows "shape (convert_to_channels_last (convert_to_channels_first t)) = shape t \<and>
         (\<forall>idx. valid_index (shape t) idx \<longrightarrow>
            elem (convert_to_channels_last (convert_to_channels_first t)) idx = elem t idx)"
proof -
  from rank show ?thesis
  proof
    assume d: "tensor_dim t = 3"
    then obtain a b c where s: "shape t = [a, b, c]"
      by (auto simp: tensor_dim_def elim: length3E)
    have sh: "shape (convert_to_channels_last (convert_to_channels_first t)) = shape t"
      using layout d s
      by (auto simp: convert_to_channels_first_def convert_to_channels_last_def
          tensor_dim_def permute_def)
    have el: "elem (convert_to_channels_last (convert_to_channels_first t)) idx = elem t idx"
      if "valid_index (shape t) idx" for idx
    proof -
      from that s have "length idx = 3" by (simp add: valid_index_length)
      then obtain i j k where i: "idx = [i, j, k]" by (rule length3E)
      show ?thesis
        using layout d s i
        by (auto simp: convert_to_channels_first_def convert_to_channels_last_def
            tensor_dim_def permute_def upt3)
    qed
    from sh el show ?thesis by blast
  next
    assume d: "tensor_dim t = 4"
    then obtain n a b c where s: "shape t = [n, a, b, c]"
      by (auto simp: tensor_dim_def elim: length4E)
    have sh: "shape (convert_to_channels_last (convert_to_channels_first t)) = shape t"
      using layout d s
      by (auto simp: convert_to_channels_first_def convert_to_channels_last_def
          tensor_dim_def permute_def)
    have el: "elem (convert_to_channels_last (convert_to_channels_first t)) idx = elem t idx"
      if "valid_index (shape t) idx" for idx
    proof -
      from that s have "length idx = 4" by (simp add: valid_index_length)
      then obtain m i j k where i: "idx = [m, i, j, k]" by (rule length4E)
      show ?thesis
        using layout d s i
        by (auto simp: convert_to_channels_first_def convert_to_channels_last_def
            tensor_dim_def permute_def upt4)
    qed
    from sh el show ?thesis by blast
  qed
qed

theorem channels_roundtrip_witness:
  "tensor_dim hwc_453 = 3 \<and> shape hwc_453 ! (tensor_dim hwc_453 - 3) = 4 \<and>
   shape hwc_453 ! (tensor_dim hwc_453 - 2) = 5 \<and>
   shape (convert_to_channels_last (convert_to_channels_first hwc_453)) = [4, 5, 3] \<and>
   valid_index (shape hwc_453) [3, 4, 2] \<and>
   elem (convert_to_channels_last (convert_to_channels_first hwc_453)) [3, 4, 2] = 342"
proof -
  have r: "tensor_dim hwc_453 = 3 \<or> tensor_dim hwc_453 = 4"
    by (simp add: tensor_dim_def hwc_453_def)
  have l: "(shape hwc_453 ! (tensor_dim hwc_453 - 3) = 3 \<and>
            shape hwc_453 ! (tensor_dim hwc_453 - 1) = 3) \<or>
           (shape hwc_453 ! (tensor_dim hwc_453 - 3) \<noteq> 3 \<and>
            shape hwc_453 ! (tensor_dim hwc_453 - 2) \<noteq> 3)"
    by (simp add: tensor_dim_def hwc_453_def)
  have v: "valid_index (shape hwc_453) [3, 4, 2]"
    by (simp add: valid_index_def hwc_453_def)
  from channels_roundtrip [OF r l] v
  have "shape (convert_to_channels_last (convert_to_channels_first hwc_453)) = shape hwc_453"
    and "elem (convert_to_channels_last (convert_to_channels_first hwc_453)) [3, 4, 2]
         = elem hwc_453 [3, 4, 2]"
    by blast+
  then show ?thesis
    using v by (simp add: tensor_dim_def hwc_453_def digits_elem_def)
qed

text \<open>
  C1, as stated, fails on a channels-first image: \<open>convert_to_channels_first\<close> keeps a
  tensor of shape \<open>(3, 4, 5)\<close> as it is, and \<open>convert_to_channels_last\<close> then permutes
  it to shape \<open>(4, 5, 3)\<close>.
\<close>

theorem channels_roundtrip_counterexample:
  "tensor_dim chw_345 = 3 \<and>
   shape (convert_to_channels_last (convert_to_channels_first chw_345)) = [4, 5, 3] \<and>
   shape (convert_to_channels_last (convert_to_channels_first chw_345)) \<noteq> shape chw_345"
  by (simp add: convert_to_channels_first_def convert_to_channels_last_def
      tensor_dim_def permute_def chw_345_def)

text \<open>
  The layout condition above is exactly the condition under which the round trip keeps
  the shape of a 3-D or 4-D tensor.
\<close>

lemma roundtrip_shape_iff:
  assumes rank: "tensor_dim t = 3 \<or> tensor_dim t = 4"
  shows "shape (convert_to_channels_last (convert_to_channels_first t)) = shape t \<longleftrightarrow>
         (shape t ! (tensor_dim t - 3) = 3 \<and> shape t ! (tensor_dim t - 1) = 3) \<or>
         (shape t ! (tensor_dim t - 3) \<noteq> 3 \<and> shape t ! (tensor_dim t - 2) \<noteq> 3)"
proof -
  from rank show ?thesis
  proof
    assume d: "tensor_dim t = 3"
    then obtain a b c where s: "shape t = [a, b, c]"
      by (auto simp: tensor_dim_def elim: length3E)
    with d show ?thesis
      by (auto simp: convert_to_channels_first_def convert_to_channels_last_def
          tensor_dim_def permute_def)
  next
    assume d: "tensor_dim t = 4"
    then obtain n a b c where s: "shape t = [n, a, b, c]"
      by (auto simp: tensor_dim_def elim: length4E)
    with d show ?thesis
      by (auto simp: convert_to_channels_first_def convert_to_channels_last_def
          tensor_dim_def permute_def)
  qed
qed

text \<open>
  C9. A tensor whose number of dimensions is neither 3 nor 4 passes through both
  conversions unchanged: neither branch of the \<^verbatim>\<open>if\<close>/\<^verbatim>\<open>elif\<close> is taken, nothing is
  permuted and nothing is raised.
\<close>

theorem convert_other_rank_unchanged:
  assumes "tensor_dim t \<noteq> 3" and "tensor_dim t \<noteq> 4"
  shows "convert_to_channels_first t = t \<and> convert_to_channels_last t = t"
  using assms by (simp add: convert_to_channels_first_def convert_to_channels_last_def)

theorem convert_other_rank_unchanged_witness:
  "tensor_dim matrix_23 \<noteq> 3 \<and> tensor_dim matrix_23 \<noteq> 4 \<and>
   convert_to_channels_first matrix_23 = matrix_23 \<and>
   convert_to_channels_last matrix_23 = matrix_23"
proof -
  have d: "tensor_dim matrix_23 \<noteq> 3" "tensor_dim matrix_23 \<noteq> 4"
    by (simp_all add: tensor_dim_def matrix_23_def)
  show ?thesis
    using d convert_other_rank_unchanged [OF d] by simp
qed

section \<open>Properties of the explanation pipeline\<close>

lemma imagenet_lengths [simp]:
  "length IMAGENET_DEFAULT_MEAN = 3" "length IMAGENET_DEFAULT_STD = 3"
  by (simp_all add: IMAGENET_DEFAULT_MEAN_def IMAGENET_DEFAULT_STD_def)

lemma imagenet_std_nonzero: "k < 3 \<Longrightarrow> IMAGENET_DEFAULT_STD ! k \<noteq> 0"
proof -
  assume "k < 3"
  then have "k = 0 \<or> k = 1 \<or> k = 2" by arith
  then show ?thesis by (auto simp: IMAGENET_DEFAULT_STD_def)
qed

lemma imagenet_std_no_zero [simp]: "0 \<notin> set IMAGENET_DEFAULT_STD"
  by (simp add: IMAGENET_DEFAULT_STD_def)

lemma inv_std_image_no_zero [simp]: "0 \<notin> (/) 1 ` set IMAGENET_DEFAULT_STD"
  by (simp add: IMAGENET_DEFAULT_STD_def)

lemma explain_pixel:
  assumes "k < 3"
  shows "((v / 255 - IMAGENET_DEFAULT_MEAN ! k) / IMAGENET_DEFAULT_STD ! k
           + IMAGENET_DEFAULT_MEAN ! k / IMAGENET_DEFAULT_STD ! k)
          * IMAGENET_DEFAULT_STD ! k * 255 = v"
  using imagenet_std_nonzero [OF assms] by (simp add: field_simps)

lemmas explain_defs =
  explain_roundtrip_def get_explain_data_aug_def convert_to_channels_first_def
  convert_to_channels_last_def tensor_dim_def channel_dim_def permute_def normalize_def
  tensor_mul_def broadcasts_def at_channel_def Let_def

lemma explain_3d:
  assumes s: "shape x = [a, b, 3]" and l: "a = 3 \<or> b \<noteq> 3"
  shows "\<exists>z. explain_roundtrip x = Inr z \<and> shape z = shape x \<and>
           (\<forall>i j k. i < a \<and> j < b \<and> k < 3 \<longrightarrow>
              elem z [i, j, k] = elem x [i, j, k] * (1 / 255))"
proof (cases "a = 3")
  case True
  with s show ?thesis
    by (simp add: explain_defs explain_pixel)
next
  case False
  with l have "b \<noteq> 3" by simp
  with False s show ?thesis
    by (simp add: explain_defs explain_pixel upt3)
qed

lemma explain_4d:
  assumes s: "shape x = [n, a, b, 3]" and l: "a = 3 \<or> b \<noteq> 3"
  shows "\<exists>z. explain_roundtrip x = Inr z \<and> shape z = shape x \<and>
           (\<forall>m i j k. m < n \<and> i < a \<and> j < b \<and> k < 3 \<longrightarrow>
              elem z [m, i, j, k] = elem x [m, i, j, k] * (1 / 255))"
proof (cases "a = 3")
  case True
  with s show ?thesis
    by (simp add: explain_defs explain_pixel)
next
  case False
  with l have "b \<noteq> 3" by simp
  with False s show ?thesis
    by (simp add: explain_defs explain_pixel upt4)
qed

text \<open>
  C2, as amended. On a channels-last image \<open>x\<close> (3-D of shape \<open>(H, W, 3)\<close> or 4-D of
  shape \<open>(N, H, W, 3)\<close>, with \<open>H = 3\<close> or \<open>W \<noteq> 3\<close>, so that the layout conversions of
  the two pipelines agree) the forward transform followed by the inverse transform
  raises nothing and returns a tensor of the shape of \<open>x\<close> whose elements are those of
  \<open>x\<close> multiplied by \<open>1 / 255\<close>: over the reals the inverse undoes the normalization and
  the channel order exactly, and it does not undo the rescale.
\<close>

theorem explain_roundtrip_rescaled:
  assumes rank: "tensor_dim x = 3 \<or> tensor_dim x = 4"
    and last: "shape x ! (tensor_dim x - 1) = 3"
    and layout: "shape x ! (tensor_dim x - 3) = 3 \<or> shape x ! (tensor_dim x - 2) \<noteq> 3"
  shows "\<exists>z. explain_roundtrip x = Inr z \<and> shape z = shape x \<and>
           (\<forall>idx. valid_index (shape x) idx \<longrightarrow> elem z idx = elem x idx * (1 / 255))"
proof -
  from rank show ?thesis
  proof
    assume d: "tensor_dim x = 3"
    then obtain a b c where s: "shape x = [a, b, c]"
      by (auto simp: tensor_dim_def elim: length3E)
    with d last layout have s3: "shape x = [a, b, 3]" and l: "a = 3 \<or> b \<noteq> 3"
      by simp_all
    from explain_3d [OF s3 l] obtain z where z: "explain_roundtrip x = Inr z"
      "shape z = shape x"
      "\<And>i j k. i < a \<Longrightarrow> j < b \<Longrightarrow> k < 3 \<Longrightarrow> elem z [i, j, k] = elem x [i, j, k] * (1 / 255)"
      by blast
    have "elem z idx = elem x idx * (1 / 255)" if v: "valid_index (shape x) idx" for idx
    proof -
      from v s3 have "length idx = 3" by (simp add: valid_index_length)
      then obtain i j k where i: "idx = [i, j, k]" by (rule length3E)
      with v s3 have "i < a" "j < b" "k < 3" by (simp_all add: valid_index_def)
      with z(3) i show ?thesis by simp
    qed
    with z(1,2) show ?thesis by blast
  next
    assume d: "tensor_dim x = 4"
    then obtain n a b c where s: "shape x = [n, a, b, c]"
      by (auto simp: tensor_dim_def elim: length4E)
    with d last layout have s4: "shape x = [n, a, b, 3]" and l: "a = 3 \<or> b \<noteq> 3"
      by simp_all
    from explain_4d [OF s4 l] obtain z where z: "explain_roundtrip x = Inr z"
      "shape z = shape x"
      "\<And>m i j k. m < n \<Longrightarrow> i < a \<Longrightarrow> j < b \<Longrightarrow> k < 3 \<Longrightarrow>
          elem z [m, i, j, k] = elem x [m, i, j, k] * (1 / 255)"
      by blast
    have "elem z idx = elem x idx * (1 / 255)" if v: "valid_index (shape x) idx" for idx
    proof -
      from v s4 have "length idx = 4" by (simp add: valid_index_length)
      then obtain m i j k where i: "idx = [m, i, j, k]" by (rule length4E)
      with v s4 have "m < n" "i < a" "j < b" "k < 3" by (simp_all add: valid_index_def)
      with z(3) i show ?thesis by simp
    qed
    with z(1,2) show ?thesis by blast
  qed
qed

theorem explain_roundtrip_rescaled_witness:
  "tensor_dim white_pixel = 3 \<and> shape white_pixel ! (tensor_dim white_pixel - 1) = 3 \<and>
   shape white_pixel ! (tensor_dim white_pixel - 2) = 1 \<and>
   valid_index (shape white_pixel) [0, 0, 2] \<and>
   pixel_of (explain_roundtrip white_pixel) [0, 0, 2] = Some (255 * (1 / 255))"
proof -
  have r: "tensor_dim white_pixel = 3 \<or> tensor_dim white_pixel = 4"
    and l: "shape white_pixel ! (tensor_dim white_pixel - 1) = 3"
    and y: "shape white_pixel ! (tensor_dim white_pixel - 3) = 3 \<or>
            shape white_pixel ! (tensor_dim white_pixel - 2) \<noteq> 3"
    and v: "valid_index (shape white_pixel) [0, 0, 2]"
    by (simp_all add: tensor_dim_def white_pixel_def valid_index_def)
  from explain_roundtrip_rescaled [OF r l y] v
  obtain z where "explain_roundtrip white_pixel = Inr z"
    and "elem z [0, 0, 2] = elem white_pixel [0, 0, 2] * (1 / 255)"
    by blast
  then have "pixel_of (explain_roundtrip white_pixel) [0, 0, 2] = Some (255 * (1 / 255))"
    by (simp add: pixel_of_def white_pixel_def)
  with v show ?thesis
    by (simp add: tensor_dim_def white_pixel_def)
qed

text \<open>
  C2, as stated, fails: a pixel value of 255 comes back as 1, because the inverse
  pipeline has no step that multiplies by 255.
\<close>

theorem explain_roundtrip_counterexample:
  "elem white_pixel [0, 0, 0] = 255 \<and>
   pixel_of (explain_roundtrip white_pixel) [0, 0, 0] = Some 1 \<and>
   pixel_of (explain_roundtrip white_pixel) [0, 0, 0] \<noteq> Some (elem white_pixel [0, 0, 0])"
  by (simp add: pixel_of_def white_pixel_def explain_defs upt3
      IMAGENET_DEFAULT_MEAN_def IMAGENET_DEFAULT_STD_def)

section \<open>Properties of the configuration resolvers\<close>




text \<open>
  C4. With \<open>opt_name = sgd\<close>, a non-empty parameter list and a learning rate and weight
  decay that are not negative, \<open>get_optimizer\<close> returns an SGD optimizer over the given
  parameters whose momentum is 0.9 and whose learning rate and weight decay are
  \<open>args.lr\<close> and \<open>args.wd\<close>; whatever \<open>get_optimizer\<close> returns for \<open>sgd\<close> is that
  optimizer, and on the other arguments the constructor raises ValueError. With a name
  other than \<open>sgd\<close> and \<open>adamw\<close> it returns \<open>None\<close>, for every parameter list.
\<close>

theorem get_optimizer_sgd_or_none:
  "(opt_name a = ''sgd'' \<and> params \<noteq> [] \<and> 0 \<le> lr a \<and> 0 \<le> wd a \<longrightarrow>
      get_optimizer a params = Inr (Some (SGD params (lr a) (wd a) 0.9))) \<and>
   (opt_name a = ''sgd'' \<longrightarrow>
      (\<forall>r. get_optimizer a params = Inr r \<longrightarrow> r = Some (SGD params (lr a) (wd a) 0.9))) \<and>
   (opt_name a = ''sgd'' \<and> (params = [] \<or> lr a < 0 \<or> wd a < 0) \<longrightarrow>
      get_optimizer a params = Inl ValueError) \<and>
   (opt_name a \<noteq> ''sgd'' \<and> opt_name a \<noteq> ''adamw'' \<longrightarrow> get_optimizer a params = Inr None)"
proof -
  have sgd: "get_optimizer a params =
               (if params = [] \<or> lr a < 0 \<or> wd a < 0 then Inl ValueError
                else Inr (Some (SGD params (lr a) (wd a) 0.9)))"
    if "opt_name a = ''sgd''"
    using that by (simp add: get_optimizer_def optim_SGD_def)
  have 1: "get_optimizer a params = Inr (Some (SGD params (lr a) (wd a) 0.9))"
    if "opt_name a = ''sgd'' \<and> params \<noteq> [] \<and> 0 \<le> lr a \<and> 0 \<le> wd a"
    using that by (simp add: sgd not_less [symmetric])
  have 2: "r = Some (SGD params (lr a) (wd a) 0.9)"
    if "opt_name a = ''sgd''" and "get_optimizer a params = Inr r" for r
    using that by (simp add: sgd split: if_splits)
  have 3: "get_optimizer a params = Inl ValueError"
    if "opt_name a = ''sgd'' \<and> (params = [] \<or> lr a < 0 \<or> wd a < 0)"
    using that by (simp add: sgd)
  have 4: "get_optimizer a params = Inr None"
    if "opt_name a \<noteq> ''sgd'' \<and> opt_name a \<noteq> ''adamw''"
    using that by (simp add: get_optimizer_def)
  from 1 2 3 4 show ?thesis by blast
qed

theorem get_optimizer_sgd_or_none_witness:
  "opt_name plain_args = ''sgd'' \<and> lr plain_args = 0.01 \<and> wd plain_args = 0.0001 \<and>
   get_optimizer plain_args [0 :: nat] = Inr (Some (SGD [0] 0.01 0.0001 0.9)) \<and>
   opt_name (plain_args\<lparr>opt_name := ''adam''\<rparr>) = ''adam'' \<and>
   get_optimizer (plain_args\<lparr>opt_name := ''adam''\<rparr>) [0 :: nat] = Inr None"
proof -
  have n: "opt_name plain_args = ''sgd''" and l: "lr plain_args = 0.01"
    and w: "wd plain_args = 0.0001"
    by (simp_all add: plain_args_def)
  have h: "opt_name plain_args = ''sgd'' \<and> [0 :: nat] \<noteq> [] \<and> 0 \<le> lr plain_args \<and>
           0 \<le> wd plain_args"
    by (simp add: n l w)
  from get_optimizer_sgd_or_none [of plain_args "[0 :: nat]"] h
  have "get_optimizer plain_args [0 :: nat] =
          Inr (Some (SGD [0] (lr plain_args) (wd plain_args) 0.9))"
    by blast
  then have s: "get_optimizer plain_args [0 :: nat] = Inr (Some (SGD [0] 0.01 0.0001 0.9))"
    by (simp only: l w)
  have m: "opt_name (plain_args\<lparr>opt_name := ''adam''\<rparr>) = ''adam''"
    by simp
  then have "opt_name (plain_args\<lparr>opt_name := ''adam''\<rparr>) \<noteq> ''sgd'' \<and>
             opt_name (plain_args\<lparr>opt_name := ''adam''\<rparr>) \<noteq> ''adamw''"
    by simp
  with get_optimizer_sgd_or_none [of "plain_args\<lparr>opt_name := ''adam''\<rparr>" "[0 :: nat]"]
  have "get_optimizer (plain_args\<lparr>opt_name := ''adam''\<rparr>) [0 :: nat] = Inr None"
    by blast
  with n l w s m show ?thesis by blast
qed

text \<open>
  C7, as amended. With a \<open>sched_name\<close> other than \<open>step\<close> and \<open>cosine\<close> and a
  \<open>warmup_decay\<close> that the warmup scheduler accepts (\<open>0 < warmup_decay \<le> 1\<close>),
  \<open>get_lr_scheduler\<close> raises nothing and returns \<open>None\<close>. Whatever \<open>warmup_decay\<close>
  is, no scheduler is returned, not even the warmup scheduler that the function builds
  first; with a \<open>warmup_decay\<close> outside that range the construction of the warmup
  scheduler raises ValueError before the name is looked at.
\<close>

theorem get_lr_scheduler_unknown_name:
  assumes "sched_name a \<noteq> ''step''" and "sched_name a \<noteq> ''cosine''"
  shows "(0 < warmup_decay a \<and> warmup_decay a \<le> 1 \<longrightarrow>
            get_lr_scheduler a optimizer = Inr None) \<and>
         (\<forall>s. get_lr_scheduler a optimizer \<noteq> Inr (Some s)) \<and>
         (warmup_decay a \<le> 0 \<or> 1 < warmup_decay a \<longrightarrow>
            get_lr_scheduler a optimizer = Inl ValueError)"
  using assms
  by (auto simp: get_lr_scheduler_def lr_scheduler_LinearLR_def sequence_after_def)

theorem get_lr_scheduler_unknown_name_witness:
  "sched_name (plain_args\<lparr>sched_name := ''plateau''\<rparr>) = ''plateau'' \<and>
   warmup_decay (plain_args\<lparr>sched_name := ''plateau''\<rparr>) = 0.01 \<and>
   get_lr_scheduler (plain_args\<lparr>sched_name := ''plateau''\<rparr>) sgd_001 = Inr None"
proof -
  have n: "sched_name (plain_args\<lparr>sched_name := ''plateau''\<rparr>) \<noteq> ''step''"
    "sched_name (plain_args\<lparr>sched_name := ''plateau''\<rparr>) \<noteq> ''cosine''"
    by simp_all
  show ?thesis
    using get_lr_scheduler_unknown_name [OF n, of sgd_001] by (simp add: plain_args_def)
qed

text \<open>
  C7, as stated, fails when \<open>warmup_decay\<close> is 0: the warmup scheduler is constructed
  before the name is tested, and its constructor raises ValueError.
\<close>

theorem get_lr_scheduler_unknown_name_counterexample:
  "sched_name (plain_args\<lparr>sched_name := ''plateau'', warmup_decay := 0\<rparr>) = ''plateau'' \<and>
   get_lr_scheduler (plain_args\<lparr>sched_name := ''plateau'', warmup_decay := 0\<rparr>) sgd_001
     = Inl ValueError \<and>
   get_lr_scheduler (plain_args\<lparr>sched_name := ''plateau'', warmup_decay := 0\<rparr>) sgd_001
     \<noteq> Inr None"
  by (simp add: get_lr_scheduler_def lr_scheduler_LinearLR_def)

lemma get_lr_scheduler_accepted:
  assumes "0 < warmup_decay a" and "warmup_decay a \<le> 1"
  shows "get_lr_scheduler a optimizer =
           Inr (sequence_after a optimizer
                  (LinearLR optimizer (warmup_decay a) (warmup_epochs a)))"
  using assms by (simp add: get_lr_scheduler_def lr_scheduler_LinearLR_def)

lemma scheduled_lr_returned:
  assumes "get_lr_scheduler a optimizer = Inr (Some s)"
  shows "scheduled_lr a optimizer e = lr_at s e"
  using assms
  by (auto simp: get_lr_scheduler_def lr_scheduler_LinearLR_def scheduled_lr_def
      split: if_splits)

lemma scheduled_lr_step:
  assumes "sched_name a = ''step''"
  shows "scheduled_lr a optimizer e =
           (if e < warmup_epochs a
            then lr_at (LinearLR optimizer (warmup_decay a) (warmup_epochs a)) e
            else lr_at (StepLR optimizer (step_size a) (gamma a)) (e - warmup_epochs a))"
  using assms by (simp add: scheduled_lr_def sequence_after_def)

lemma step_power_next:
  fixes n e :: int and g :: real
  assumes "0 < n" and "0 \<le> e"
  shows "g ^ nat ((e + n) div n) = g * g ^ nat (e div n)"
proof -
  from assms have "(e + n) div n = e div n + 1" by simp
  moreover from assms have "0 \<le> e div n" by (simp add: pos_imp_zdiv_nonneg_iff)
  ultimately have "nat ((e + n) div n) = Suc (nat (e div n))" by simp
  then show ?thesis by simp
qed

text \<open>
  C3. For \<open>sched_name = step\<close> and \<open>warmup_epochs = 5\<close> (and any total number of
  epochs, 20 among them), with a positive step size: the rate at epoch 0 is
  \<open>warmup_decay\<close> times the base rate of the optimizer, it rises linearly during the
  five warmup epochs, it is the base rate at epoch 5, and from epoch 5 on it is the base
  rate times \<open>gamma\<close> to the number of completed blocks of \<open>step_size\<close> epochs since
  epoch 5, so that \<open>step_size\<close> epochs later the rate is \<open>gamma\<close> times what it was.
  The warmup phase is never re-entered. When the warmup scheduler accepts
  \<open>warmup_decay\<close>, these are the rates of the scheduler that \<open>get_lr_scheduler\<close>
  returns.
\<close>

theorem get_lr_scheduler_step_schedule:
  assumes name: "sched_name a = ''step''"
    and warm: "warmup_epochs a = 5"
    and pos: "0 < step_size a"
  shows "scheduled_lr a optimizer 0 = Some (warmup_decay a * opt_lr optimizer) \<and>
         scheduled_lr a optimizer 5 = Some (opt_lr optimizer) \<and>
         (\<forall>e. 0 \<le> e \<and> e < 5 \<longrightarrow>
            scheduled_lr a optimizer e =
              Some (opt_lr optimizer *
                (warmup_decay a + (1 - warmup_decay a) * real_of_int e / 5))) \<and>
         (\<forall>e. 5 \<le> e \<longrightarrow>
            scheduled_lr a optimizer e =
              Some (opt_lr optimizer * gamma a ^ nat ((e - 5) div step_size a))) \<and>
         (\<forall>e. 5 \<le> e \<longrightarrow>
            (\<exists>r. scheduled_lr a optimizer e = Some r \<and>
                 scheduled_lr a optimizer (e + step_size a) = Some (gamma a * r))) \<and>
         (0 < warmup_decay a \<and> warmup_decay a \<le> 1 \<longrightarrow>
            (\<exists>s. get_lr_scheduler a optimizer = Inr (Some s) \<and>
                 (\<forall>e. scheduled_lr a optimizer e = lr_at s e)))"
proof -
  note s = scheduled_lr_step [OF name, of optimizer]
  have c0: "scheduled_lr a optimizer 0 = Some (warmup_decay a * opt_lr optimizer)"
    by (simp add: s warm)
  have c5: "scheduled_lr a optimizer 5 = Some (opt_lr optimizer)"
    by (simp add: s warm)
  have cw: "scheduled_lr a optimizer e =
              Some (opt_lr optimizer *
                (warmup_decay a + (1 - warmup_decay a) * real_of_int e / 5))"
    if "0 \<le> e \<and> e < 5" for e
    using that by (simp add: s warm min_def)
  have cm: "scheduled_lr a optimizer e =
              Some (opt_lr optimizer * gamma a ^ nat ((e - 5) div step_size a))"
    if "5 \<le> e" for e
    using that by (simp add: s warm)
  have cs: "\<exists>r. scheduled_lr a optimizer e = Some r \<and>
                 scheduled_lr a optimizer (e + step_size a) = Some (gamma a * r)"
    if e: "5 \<le> e" for e
  proof -
    from e pos have e': "5 \<le> e + step_size a" by simp
    have r: "e + step_size a - 5 = (e - 5) + step_size a" by simp
    from e pos have "gamma a ^ nat ((e - 5 + step_size a) div step_size a)
        = gamma a * gamma a ^ nat ((e - 5) div step_size a)"
      by (intro step_power_next) simp_all
    then have "gamma a ^ nat ((e + step_size a - 5) div step_size a)
        = gamma a * gamma a ^ nat ((e - 5) div step_size a)"
      by (simp only: r)
    with cm [OF e] cm [OF e'] show ?thesis by simp
  qed
  have cr: "\<exists>s. get_lr_scheduler a optimizer = Inr (Some s) \<and>
                (\<forall>e. scheduled_lr a optimizer e = lr_at s e)"
    if v: "0 < warmup_decay a \<and> warmup_decay a \<le> 1"
  proof -
    from v name have "get_lr_scheduler a optimizer =
        Inr (Some (SequentialLR optimizer
                [LinearLR optimizer (warmup_decay a) (warmup_epochs a),
                 StepLR optimizer (step_size a) (gamma a)] [warmup_epochs a]))"
      by (simp add: get_lr_scheduler_accepted sequence_after_def)
    then show ?thesis
      using scheduled_lr_returned by blast
  qed
  from c0 c5 cw cm cs cr show ?thesis by blast
qed

theorem get_lr_scheduler_step_schedule_witness:
  "sched_name plain_args = ''step'' \<and> warmup_epochs plain_args = 5 \<and>
   epochs plain_args = 20 \<and> step_size plain_args = 10 \<and>
   scheduled_lr plain_args sgd_001 0 = Some (0.01 * 0.01) \<and>
   scheduled_lr plain_args sgd_001 5 = Some 0.01 \<and>
   scheduled_lr plain_args sgd_001 14 = Some 0.01 \<and>
   scheduled_lr plain_args sgd_001 15 = Some (0.1 * 0.01) \<and>
   warmup_decay plain_args = 0.01 \<and>
   get_lr_scheduler plain_args sgd_001 =
     Inr (Some (SequentialLR sgd_001 [LinearLR sgd_001 0.01 5, StepLR sgd_001 10 0.1] [5]))"
proof -
  have h: "sched_name plain_args = ''step''" "warmup_epochs plain_args = 5"
    "0 < step_size plain_args"
    by (simp_all add: plain_args_def)
  from get_lr_scheduler_step_schedule [OF h, of sgd_001]
  have "scheduled_lr plain_args sgd_001 0 = Some (warmup_decay plain_args * opt_lr sgd_001)"
    and "scheduled_lr plain_args sgd_001 5 = Some (opt_lr sgd_001)"
    and m: "\<And>e. 5 \<le> e \<Longrightarrow> scheduled_lr plain_args sgd_001 e =
          Some (opt_lr sgd_001 * gamma plain_args ^ nat ((e - 5) div step_size plain_args))"
    by blast+
  moreover have "get_lr_scheduler plain_args sgd_001 =
      Inr (Some (SequentialLR sgd_001 [LinearLR sgd_001 0.01 5, StepLR sgd_001 10 0.1] [5]))"
    by (simp add: get_lr_scheduler_def lr_scheduler_LinearLR_def sequence_after_def
        plain_args_def)
  ultimately show ?thesis
    using m [of 14] m [of 15] by (simp add: plain_args_def sgd_001_def)
qed

section \<open>Properties of the JSON helpers\<close>

lemma append_dict_fresh:
  assumes "fs p = None"
  shows "append_dict_to_json_file new p fs = Inr (fs(p \<mapsto> Document (JDict (dict_update [] new))))"
  using assms by (simp add: append_dict_to_json_file_def load_json_file_def)

lemma append_dict_existing:
  assumes "fs p = Some (Document (JDict d))"
  shows "append_dict_to_json_file new p fs = Inr (fs(p \<mapsto> Document (JDict (dict_update d new))))"
  using assms by (simp add: append_dict_to_json_file_def load_json_file_def)

lemma map_of_dict_setitem: "map_of (dict_setitem d k v) x = ((map_of d)(k \<mapsto> v)) x"
  by (induction d k v rule: dict_setitem.induct) auto

lemma map_of_dict_update:
  "map_of (dict_update d new) x = (map_of d ++ map_of (rev new)) x"
proof (induction d new rule: dict_update.induct)
  case (1 d)
  show ?case by simp
next
  case (2 d k v new)
  then show ?case
    by (simp add: map_of_dict_setitem map_add_def split: option.splits)
qed

lemma keys_dict_setitem:
  "map fst (dict_setitem d k v) = (if k \<in> set (map fst d) then map fst d else map fst d @ [k])"
  by (induction d k v rule: dict_setitem.induct) auto

lemma distinct_dict_setitem:
  "distinct (map fst d) \<Longrightarrow> distinct (map fst (dict_setitem d k v))"
  by (simp add: keys_dict_setitem)

lemma distinct_dict_update:
  "distinct (map fst d) \<Longrightarrow> distinct (map fst (dict_update d new))"
  by (induction d new rule: dict_update.induct) (simp_all add: distinct_dict_setitem)

text \<open>
  C5. On a path where there is no file, appending \<open>{"a": 1}\<close> creates the file with
  that dictionary, appending \<open>{"b": 2}\<close> then leaves \<open>{"a": 1, "b": 2}\<close>, and appending
  \<open>{"a": 3}\<close> after that leaves \<open>{"a": 3, "b": 2}\<close>. In general the call replaces the
  content of the file, and of no other file, by the dictionary found there (the empty
  one when there is no file) updated with the new one, and the update is a shallow
  key-merge: a key of the new dictionary has its new value (the last one given), every
  other key keeps its value, and no key occurs twice.
\<close>

theorem append_dict_overwrites:
  "(fs p = None \<longrightarrow>
      append_dict_to_json_file [(''a'', JInt 1)] p fs
        = Inr (fs(p \<mapsto> Document (JDict [(''a'', JInt 1)]))) \<and>
      append_dict_to_json_file [(''b'', JInt 2)] p
          (fs(p \<mapsto> Document (JDict [(''a'', JInt 1)])))
        = Inr (fs(p \<mapsto> Document (JDict [(''a'', JInt 1), (''b'', JInt 2)]))) \<and>
      append_dict_to_json_file [(''a'', JInt 3)] p
          (fs(p \<mapsto> Document (JDict [(''a'', JInt 1), (''b'', JInt 2)])))
        = Inr (fs(p \<mapsto> Document (JDict [(''a'', JInt 3), (''b'', JInt 2)])))) \<and>
   (fs p = None \<longrightarrow>
      append_dict_to_json_file new p fs
        = Inr (fs(p \<mapsto> Document (JDict (dict_update [] new))))) \<and>
   (fs p = Some (Document (JDict d)) \<longrightarrow>
      append_dict_to_json_file new p fs
        = Inr (fs(p \<mapsto> Document (JDict (dict_update d new))))) \<and>
   map_of (dict_update d new) k
     = (case map_of (rev new) k of Some v \<Rightarrow> Some v | None \<Rightarrow> map_of d k) \<and>
   (distinct (map fst d) \<longrightarrow> distinct (map fst (dict_update d new)))"
proof -
  have 1: "append_dict_to_json_file [(''a'', JInt 1)] p fs
             = Inr (fs(p \<mapsto> Document (JDict [(''a'', JInt 1)])))"
    if "fs p = None"
    using that by (simp add: append_dict_fresh)
  have 2: "append_dict_to_json_file [(''b'', JInt 2)] p
             (fs(p \<mapsto> Document (JDict [(''a'', JInt 1)])))
           = Inr (fs(p \<mapsto> Document (JDict [(''a'', JInt 1), (''b'', JInt 2)])))"
    by (simp add: append_dict_existing [where d = "[(''a'', JInt 1)]"])
  have 3: "append_dict_to_json_file [(''a'', JInt 3)] p
             (fs(p \<mapsto> Document (JDict [(''a'', JInt 1), (''b'', JInt 2)])))
           = Inr (fs(p \<mapsto> Document (JDict [(''a'', JInt 3), (''b'', JInt 2)])))"
    by (simp add: append_dict_existing [where d = "[(''a'', JInt 1), (''b'', JInt 2)]"])
  have 4: "map_of (dict_update d new) k
             = (case map_of (rev new) k of Some v \<Rightarrow> Some v | None \<Rightarrow> map_of d k)"
    by (simp add: map_of_dict_update map_add_def)
  from 1 2 3 4 show ?thesis
    by (simp add: append_dict_fresh append_dict_existing distinct_dict_update)
qed

theorem append_dict_overwrites_witness:
  "(Map.empty :: file_system) ''data.json'' = None \<and>
   append_dict_to_json_file [(''a'', JInt 1)] ''data.json'' Map.empty
     = Inr [''data.json'' \<mapsto> Document (JDict [(''a'', JInt 1)])] \<and>
   append_dict_to_json_file [(''b'', JInt 2)] ''data.json''
       [''data.json'' \<mapsto> Document (JDict [(''a'', JInt 1)])]
     = Inr [''data.json'' \<mapsto> Document (JDict [(''a'', JInt 1), (''b'', JInt 2)])] \<and>
   append_dict_to_json_file [(''a'', JInt 3)] ''data.json''
       [''data.json'' \<mapsto> Document (JDict [(''a'', JInt 1), (''b'', JInt 2)])]
     = Inr [''data.json'' \<mapsto> Document (JDict [(''a'', JInt 3), (''b'', JInt 2)])] \<and>
   append_dict_to_json_file [(''b'', JInt 5), (''c'', JInt 6)] ''data.json''
       [''data.json'' \<mapsto> Document (JDict [(''a'', JInt 1), (''b'', JInt 2)])]
     = Inr [''data.json'' \<mapsto>
              Document (JDict [(''a'', JInt 1), (''b'', JInt 5), (''c'', JInt 6)])] \<and>
   distinct (map fst [(''a'', JInt 1), (''b'', JInt 2)]) \<and>
   distinct (map fst (dict_update [(''a'', JInt 1), (''b'', JInt 2)]
                        [(''b'', JInt 5), (''c'', JInt 6)])) \<and>
   map_of (dict_update [(''a'', JInt 1), (''b'', JInt 2)] [(''b'', JInt 5), (''c'', JInt 6)])
     ''b'' = Some (JInt 5)"
  using append_dict_overwrites [of Map.empty "''data.json''" "[]" "[]" "''a''"]
    append_dict_overwrites
      [of "[''data.json'' \<mapsto> Document (JDict [(''a'', JInt 1), (''b'', JInt 2)])]"
        "''data.json''" "[(''b'', JInt 5), (''c'', JInt 6)]"
        "[(''a'', JInt 1), (''b'', JInt 2)]" "''b''"]
  by simp

section \<open>Properties of the class weights\<close>

lemma fold_max_lower: "m \<le> fold max xs (m::nat)"
proof (induction xs arbitrary: m)
  case Nil
  show ?case by simp
next
  case (Cons x xs)
  have "m \<le> max x m" by simp
  also have "\<dots> \<le> fold max xs (max x m)" by (rule Cons.IH)
  finally show ?case by simp
qed

lemma fold_max_upper: "x \<in> set xs \<Longrightarrow> x \<le> fold max xs (m::nat)"
proof (induction xs arbitrary: m)
  case Nil
  then show ?case by simp
next
  case (Cons y ys)
  show ?case
  proof (cases "x = y")
    case True
    have "x \<le> max y m" using True by simp
    also have "\<dots> \<le> fold max ys (max y m)" by (rule fold_max_lower)
    finally show ?thesis by simp
  next
    case False
    with Cons.prems have "x \<in> set ys" by simp
    then show ?thesis using Cons.IH by simp
  qed
qed

lemma fold_max_mem: "fold max xs (m::nat) \<in> insert m (set xs)"
proof (induction xs arbitrary: m)
  case Nil
  show ?case by simp
next
  case (Cons x xs)
  from Cons.IH [of "max x m"] show ?case
    by (auto simp: max_def split: if_splits)
qed

lemma fold_max_eq_Max:
  assumes "xs \<noteq> []"
  shows "fold max xs (0::nat) = Max (set xs)"
proof -
  have "fold max xs 0 \<in> set xs"
  proof (cases "fold max xs 0 = 0")
    case True
    from assms obtain x where x: "x \<in> set xs" by (cases xs) auto
    with fold_max_upper [OF x, of 0] True have "x = 0" by simp
    with x True show ?thesis by simp
  next
    case False
    with fold_max_mem [of xs 0] show ?thesis by simp
  qed
  moreover have "\<And>y. y \<in> set xs \<Longrightarrow> y \<le> fold max xs 0"
    by (rule fold_max_upper)
  ultimately show ?thesis
    by (intro Max_eqI [symmetric]) simp_all
qed

lemma length_bincount:
  "xs \<noteq> [] \<Longrightarrow> length (bincount xs) = Suc (Max (set xs))"
  by (simp add: bincount_def fold_max_eq_Max)

lemma bincount_nth:
  assumes "c < length (bincount xs)"
  shows "bincount xs ! c = count_list xs c"
proof -
  from assms have ne: "xs \<noteq> []" by (auto simp: bincount_def)
  with assms have "c < Suc (fold max xs 0)" by (simp add: bincount_def)
  with ne show ?thesis
    by (simp add: bincount_def del: upt_Suc)
qed

lemma get_class_weights_length:
  "length (get_class_weights dl) = length (bincount (targets (dataset dl)))"
  by (simp add: get_class_weights_def Let_def)

lemma get_class_weights_nth:
  assumes "c < length (bincount (targets (dataset dl)))"
  shows "get_class_weights dl ! c =
           true_divide (length (targets (dataset dl)))
             (length (classes (dataset dl)) * count_list (targets (dataset dl)) c)"
  using assms by (simp add: get_class_weights_def Let_def bincount_nth)

lemma count_list_replicate: "count_list (replicate n x) y = (if x = y then n else 0)"
  by (induction n) auto

lemma two_labels_nonempty:
  assumes "set t = {0, 1::nat}"
  shows "t \<noteq> []"
proof
  assume "t = []"
  with assms show False by simp
qed

lemma two_labels_max:
  assumes h: "set t = {0, 1::nat}"
  shows "fold max t 0 = 1"
proof -
  from h have ne: "t \<noteq> []" by (rule two_labels_nonempty)
  have "Max {0, 1::nat} = 1" by simp
  with h show ?thesis by (simp only: fold_max_eq_Max [OF ne])
qed

lemma two_labels_length:
  assumes "set t = {0, 1::nat}" and "count_list t 0 = 80" and "count_list t 1 = 20"
  shows "length t = 100"
proof -
  have "sum (count_list t) {0, 1} = length t"
    using assms(1) by (intro sum_count_set) simp_all
  with assms(2,3) show ?thesis by simp
qed

lemma two_labels_bincount:
  assumes h: "set t = {0, 1::nat}"
  shows "bincount t = [count_list t 0, count_list t 1]"
proof -
  from h have ne: "t \<noteq> []" by (rule two_labels_nonempty)
  have u: "[0..<Suc 1] = [0, 1]" by simp
  from ne show ?thesis
    by (simp only: bincount_def two_labels_max [OF h] u if_False list.map)
qed

text \<open>
  C8. There is one weight for each class index from 0 to the largest label. The weight
  of a class that has samples, in a dataset that has classes, is the number of samples
  divided by the product of the number of classes and the number of samples of that
  class; a class index without samples gets an infinite weight. For two classes with 80
  and 20 samples the weights are \<open>0.625\<close> and \<open>2.5\<close>.
\<close>

theorem get_class_weights_inverse_frequency:
  "(targets (dataset dl) = [] \<longrightarrow> get_class_weights dl = []) \<and>
   (targets (dataset dl) \<noteq> [] \<longrightarrow>
      length (get_class_weights dl) = Suc (Max (set (targets (dataset dl))))) \<and>
   (\<forall>c. c \<in> set (targets (dataset dl)) \<and> classes (dataset dl) \<noteq> [] \<longrightarrow>
      c < length (get_class_weights dl) \<and>
      get_class_weights dl ! c =
        Finite (real (length (targets (dataset dl))) /
                (real (length (classes (dataset dl))) *
                 real (count_list (targets (dataset dl)) c)))) \<and>
   (\<forall>c. c < length (get_class_weights dl) \<and> c \<notin> set (targets (dataset dl)) \<longrightarrow>
      get_class_weights dl ! c = PosInf) \<and>
   (set (targets (dataset dl)) = {0, 1} \<and> count_list (targets (dataset dl)) 0 = 80 \<and>
    count_list (targets (dataset dl)) 1 = 20 \<and> length (classes (dataset dl)) = 2 \<longrightarrow>
      get_class_weights dl = [Finite 0.625, Finite 2.5])"
proof -
  let ?t = "targets (dataset dl)"
  have e: "get_class_weights dl = []" if "?t = []"
    using that by (simp add: get_class_weights_def Let_def bincount_def)
  have l: "length (get_class_weights dl) = Suc (Max (set ?t))" if "?t \<noteq> []"
    using that by (simp add: get_class_weights_length length_bincount)
  have f: "c < length (get_class_weights dl) \<and>
           get_class_weights dl ! c =
             Finite (real (length ?t) /
                     (real (length (classes (dataset dl))) * real (count_list ?t c)))"
    if h: "c \<in> set ?t \<and> classes (dataset dl) \<noteq> []" for c
  proof -
    from h have ne: "?t \<noteq> []" by auto
    from h have "c \<le> Max (set ?t)" by simp
    with l [OF ne] have c: "c < length (get_class_weights dl)" by simp
    from h have "count_list ?t c \<noteq> 0" by (simp add: count_list_0_iff)
    then have "0 < count_list ?t c" by simp
    with h c show ?thesis
      by (simp add: get_class_weights_nth get_class_weights_length [symmetric]
          true_divide_def)
  qed
  have i: "get_class_weights dl ! c = PosInf"
    if h: "c < length (get_class_weights dl) \<and> c \<notin> set ?t" for c
  proof -
    from h have ne: "?t \<noteq> []" by (auto simp: e)
    from h have "count_list ?t c = 0" by (simp add: count_list_0_iff)
    with h ne show ?thesis
      by (simp add: get_class_weights_nth get_class_weights_length [symmetric]
          true_divide_def)
  qed
  have x: "get_class_weights dl = [Finite 0.625, Finite 2.5]"
    if h: "set ?t = {0, 1} \<and> count_list ?t 0 = 80 \<and> count_list ?t 1 = 20 \<and>
           length (classes (dataset dl)) = 2"
  proof -
    from h have s: "set ?t = {0, 1}" and c0: "count_list ?t 0 = 80"
      and c1: "count_list ?t 1 = 20" and k: "length (classes (dataset dl)) = 2"
      by simp_all
    have n: "length ?t = 100" by (rule two_labels_length [OF s c0 c1])
    have b: "bincount ?t = [80, 20]" by (simp only: two_labels_bincount [OF s] c0 c1)
    show ?thesis
      by (simp add: get_class_weights_def Let_def true_divide_def b n k)
  qed
  from e l f i x show ?thesis by blast
qed

theorem get_class_weights_inverse_frequency_witness:
  "targets (dataset loader_80_20) \<noteq> [] \<and>
   set (targets (dataset loader_80_20)) = {0, 1} \<and>
   count_list (targets (dataset loader_80_20)) 0 = 80 \<and>
   count_list (targets (dataset loader_80_20)) 1 = 20 \<and>
   length (classes (dataset loader_80_20)) = 2 \<and>
   length (targets (dataset loader_80_20)) = 100 \<and>
   length (get_class_weights loader_80_20) = 2 \<and>
   get_class_weights loader_80_20 = [Finite (100 / (2 * 80)), Finite (100 / (2 * 20))] \<and>
   get_class_weights loader_80_20 ! 1 = Finite (100 / (2 * 20))"
proof -
  have s: "set (targets (dataset loader_80_20)) = {0, 1}"
    by (simp add: loader_80_20_def set_replicate_conv_if insert_commute)
  have c0: "count_list (targets (dataset loader_80_20)) 0 = 80"
    by (simp add: loader_80_20_def count_list_replicate)
  have c1: "count_list (targets (dataset loader_80_20)) 1 = 20"
    by (simp add: loader_80_20_def count_list_replicate)
  have l: "length (classes (dataset loader_80_20)) = 2"
    by (simp add: loader_80_20_def)
  have n: "length (targets (dataset loader_80_20)) = 100"
    by (simp add: loader_80_20_def)
  have ne: "targets (dataset loader_80_20) \<noteq> []"
    by (rule two_labels_nonempty [OF s])
  note t = get_class_weights_inverse_frequency [of loader_80_20]
  from t s c0 c1 l
  have w: "get_class_weights loader_80_20 = [Finite 0.625, Finite 2.5]"
    by blast
  have "get_class_weights loader_80_20 = [Finite (100 / (2 * 80)), Finite (100 / (2 * 20))]"
    and "get_class_weights loader_80_20 ! 1 = Finite (100 / (2 * 20))"
    and "length (get_class_weights loader_80_20) = 2"
    by (simp_all add: w)
  with ne s c0 c1 l n show ?thesis
    by blast
qed

section \<open>Properties of the worker seeding\<close>

text \<open>
  C10. With worker id 0 the function takes the worker branch: NumPy and Python's
  \<open>random\<close> are seeded with 0 and the function returns 0, not \<open>None\<close>; the initial
  seed of PyTorch is not used.
\<close>

theorem set_seed_for_worker_zero:
  "set_seed_for_worker (Some 0) st = (Some 0, st\<lparr>numpy_seed := 0, random_seed := 0\<rparr>) \<and>
   fst (set_seed_for_worker (Some 0) st) \<noteq> None"
  by (simp add: set_seed_for_worker_def)

end
